theory Spec2Isabelle
  imports Main
begin

section \<open>The habitat supervisor health check (main.go)\<close>

text \<open>
  The program is a Sensu check with two entry points, \<open>checkArgs\<close> and
  \<open>executeCheck\<close>. It reads the global \<open>plugin\<close> configuration, asks a supervisor
  over HTTP for the health of services and folds the answers into one check state.
  Go strings are byte sequences, as \<open>string\<close> is here.
\<close>

subsection \<open>Data\<close>

text \<open>\<open>type Config struct\<close>: the fields the program itself declares.\<close>

record Config =
  SupervisorURL :: string
  Services :: "string list"
  Timeout :: int

text \<open>
  The check states are constants of the Sensu plugin SDK, which is not part of the
  repository; they are the conventional exit codes 0 to 3.
\<close>

definition CheckStateOK :: int where
  "CheckStateOK = 0"

definition CheckStateWarning :: int where
  "CheckStateWarning = 1"

definition CheckStateCritical :: int where
  "CheckStateCritical = 2"

definition CheckStateUnknown :: int where
  "CheckStateUnknown = 3"

text \<open>
  Go \<open>error\<close> values. \<open>LibraryError\<close> is an error handed back by net/url, net/http
  or encoding/json, with its message; the others are the \<open>fmt.Errorf\<close> calls of main.go
  with the values they format.
\<close>

datatype error =
    LibraryError string
  | MalformedService string
  | ParseSupervisorURL string error
  | CouldNotRetrieveServices error
  | DecodeServiceResponse error
  | DecodeHealthResponse error

text \<open>The only run-time panic of the program: an index beyond a slice's length.\<close>

datatype panic = IndexOutOfRange

text \<open>\<open>type Health struct\<close>; a nil \<open>Error\<close> is \<open>None\<close>.\<close>

record Health =
  ServiceGroup :: string
  Status :: int
  Error :: "error option"

text \<open>The part of \<open>http.Response\<close> the program reads.\<close>

record Response =
  StatusCode :: int
  Body :: string

text \<open>
  Everything outside the program is a parameter:
  \<^item> \<open>url_Parse u\<close> is the error of \<open>url.Parse(u)\<close>, if any. \<open>http.NewRequest\<close> with
    the method GET and no body fails exactly when \<open>url.Parse\<close> of its URL does.
  \<^item> \<open>client_Do past u\<close> is what \<open>client.Do\<close> returns for a GET of \<open>u\<close> after the
    requests \<open>past\<close> were sent (the supervisor may answer the same URL differently
    over time; the configured timeout is part of this behaviour).
  \<^item> \<open>decode_ServiceResponse\<close> and \<open>decode_HealthResponse\<close> are the JSON decoding of a
    body into \<open>ServiceResponse\<close> (the \<open>service_group\<close> of each entry, in order) and
    into \<open>HealthResponse\<close> (its \<open>status\<close>).
\<close>

record World =
  url_Parse :: "string \<Rightarrow> error option"
  client_Do :: "string list \<Rightarrow> string \<Rightarrow> error + Response"
  decode_ServiceResponse :: "string \<Rightarrow> error + string list"
  decode_HealthResponse :: "string \<Rightarrow> error + string"

text \<open>
  What \<open>fmt.Printf\<close> wrote: \<open>Text s\<close> is a call whose output is exactly \<open>s\<close>;
  \<open>ErrorReport e\<close> is the call
  \<^verbatim>\<open>fmt.Printf("Error occured while checking service:\n%v\n", e)\<close>.
\<close>

datatype printf = Text string | ErrorReport error

definition newline :: char where
  "newline = CHR 0x0A"

subsection \<open>The functions of package strings that the program calls\<close>

text \<open>
  \<open>strings.SplitN(s, ".", 2)\<close>: the text before the first dot and the text after it,
  or \<open>s\<close> alone when it has no dot.
\<close>

definition SplitN :: "string \<Rightarrow> string list" where
  "SplitN s =
     (if CHR ''.'' \<in> set s
      then [takeWhile (\<lambda>c. c \<noteq> CHR ''.'') s, tl (dropWhile (\<lambda>c. c \<noteq> CHR ''.'') s)]
      else [s])"

text \<open>\<open>strings.TrimSuffix(s, suffix)\<close> removes one occurrence of the suffix.\<close>

definition HasSuffix :: "string \<Rightarrow> string \<Rightarrow> bool" where
  "HasSuffix s suffix =
     (length suffix \<le> length s \<and> drop (length s - length suffix) s = suffix)"

definition TrimSuffix :: "string \<Rightarrow> string \<Rightarrow> string" where
  "TrimSuffix s suffix =
     (if HasSuffix s suffix then take (length s - length suffix) s else s)"

text \<open>
  \<open>strings.EqualFold(s, t)\<close> for a \<open>t\<close> of ASCII bytes, which is how the program
  calls it. The library compares rune by rune under Unicode simple case folding.
  Against an ASCII byte of \<open>t\<close>, an ASCII byte of \<open>s\<close> matches when it is equal or
  differs only in case (\<open>asciiFold\<close>); of the runes beyond ASCII only the Kelvin sign
  U+212A (UTF-8: E2 84 AA) folds to an ASCII letter of either case, \<open>k\<close>, and the long
  s U+017F (UTF-8: C5 BF) to \<open>s\<close>. Any other rune, and any malformed byte, matches no
  ASCII byte.
\<close>

definition asciiFold :: "char \<Rightarrow> char \<Rightarrow> bool" where
  "asciiFold sr tr =
     (sr = tr \<or>
      (let lo = min (of_char sr) (of_char tr) :: nat; hi = max (of_char sr) (of_char tr)
       in 65 \<le> lo \<and> lo \<le> 90 \<and> hi = lo + 32))"

definition kelvin :: string where
  "kelvin = [CHR 0xE2, CHR 0x84, CHR 0xAA]"

definition long_s :: string where
  "long_s = [CHR 0xC5, CHR 0xBF]"

fun EqualFold :: "string \<Rightarrow> string \<Rightarrow> bool" where
  "EqualFold s [] = (s = [])"
| "EqualFold s (tr # t) =
     (case s of
        [] \<Rightarrow> False
      | sr # s' \<Rightarrow>
          if (of_char sr :: nat) < 128 then asciiFold sr tr \<and> EqualFold s' t
          else if take 3 s = kelvin \<and> (tr = CHR ''k'' \<or> tr = CHR ''K'')
            then EqualFold (drop 3 s) t
          else if take 2 s = long_s \<and> (tr = CHR ''s'' \<or> tr = CHR ''S'')
            then EqualFold (drop 2 s) t
          else False)"

subsection \<open>checkArgs\<close>

text \<open>The loop over \<open>plugin.Services\<close>: the first service that does not split in two.\<close>

fun checkArgs_loop :: "string list \<Rightarrow> string option" where
  "checkArgs_loop [] = None"
| "checkArgs_loop (service # rest) =
     (if length (SplitN service) \<noteq> 2 then Some service else checkArgs_loop rest)"

definition checkArgs :: "World \<Rightarrow> Config \<Rightarrow> int \<times> error option" where
  "checkArgs w plugin =
     (case checkArgs_loop (Services plugin) of
        Some service \<Rightarrow> (CheckStateWarning, Some (MalformedService service))
      | None \<Rightarrow>
          (case url_Parse w (SupervisorURL plugin) of
             Some e \<Rightarrow> (CheckStateWarning, Some (ParseSupervisorURL (SupervisorURL plugin) e))
           | None \<Rightarrow> (CheckStateOK, None)))"

subsection \<open>The requests\<close>

definition getSupervisorUrl :: "Config \<Rightarrow> string" where
  "getSupervisorUrl plugin = TrimSuffix (SupervisorURL plugin) ''/''"

text \<open>The URL of the enumeration request.\<close>

definition servicesUrl :: "Config \<Rightarrow> string" where
  "servicesUrl plugin = getSupervisorUrl plugin @ ''/services''"

text \<open>
  \<open>getAllServices\<close>, with the requests sent so far; it returns the enumerated service
  groups or an error, and the requests sent.
\<close>

definition getAllServices :: "World \<Rightarrow> Config \<Rightarrow> string list \<Rightarrow> (error + string list) \<times> string list" where
  "getAllServices w plugin past =
     (case url_Parse w (servicesUrl plugin) of
        Some e \<Rightarrow> (Inl e, past)
      | None \<Rightarrow>
          (case client_Do w past (servicesUrl plugin) of
             Inl e \<Rightarrow> (Inl e, past @ [servicesUrl plugin])
           | Inr resp \<Rightarrow>
               (case decode_ServiceResponse w (Body resp) of
                  Inl e \<Rightarrow> (Inl (DecodeServiceResponse e), past @ [servicesUrl plugin])
                | Inr services \<Rightarrow> (Inr services, past @ [servicesUrl plugin]))))"

text \<open>
  The URL of a health request, from the two parts of the split service. The program
  reads \<open>serviceSplit[0]\<close> and \<open>serviceSplit[1]\<close>; \<open>checkService\<close> below guards the
  reads.
\<close>

definition healthUrl :: "Config \<Rightarrow> string \<Rightarrow> string" where
  "healthUrl plugin service =
     getSupervisorUrl plugin @ ''/services/'' @ SplitN service ! 0 @ ''/'' @
     SplitN service ! 1 @ ''/health''"

text \<open>The chain of comparisons that sets \<open>result.Status\<close> from the decoded status.\<close>

definition healthStatus :: "string \<Rightarrow> int \<Rightarrow> int" where
  "healthStatus status current =
     (if EqualFold status ''ok'' then CheckStateOK
      else if EqualFold status ''warning'' then CheckStateWarning
      else if EqualFold status ''critical'' then CheckStateCritical
      else if EqualFold status ''unknown'' then CheckStateUnknown
      else current)"

definition checkService :: "World \<Rightarrow> Config \<Rightarrow> string \<Rightarrow> string list \<Rightarrow> panic + (Health \<times> string list)" where
  "checkService w plugin service past =
     (let result = \<lparr>ServiceGroup = service, Status = CheckStateUnknown, Error = None\<rparr>
      in if length (SplitN service) < 2 then Inl IndexOutOfRange
         else
           (case url_Parse w (healthUrl plugin service) of
              Some e \<Rightarrow> Inr (result\<lparr>Error := Some e\<rparr>, past)
            | None \<Rightarrow>
                (case client_Do w past (healthUrl plugin service) of
                   Inl e \<Rightarrow> Inr (result\<lparr>Error := Some e\<rparr>, past @ [healthUrl plugin service])
                 | Inr resp \<Rightarrow>
                     if StatusCode resp = 200 then
                       (case decode_HealthResponse w (Body resp) of
                          Inl e \<Rightarrow>
                            Inr (result\<lparr>Error := Some (DecodeHealthResponse e)\<rparr>,
                                 past @ [healthUrl plugin service])
                        | Inr status \<Rightarrow>
                            Inr (result\<lparr>Status := healthStatus status (Status result)\<rparr>,
                                 past @ [healthUrl plugin service]))
                     else Inr (result, past @ [healthUrl plugin service]))))"

fun checkServices :: "World \<Rightarrow> Config \<Rightarrow> string list \<Rightarrow> string list \<Rightarrow> panic + (Health list \<times> string list)" where
  "checkServices w plugin [] past = Inr ([], past)"
| "checkServices w plugin (service # rest) past =
     (case checkService w plugin service past of
        Inl p \<Rightarrow> Inl p
      | Inr (health, past') \<Rightarrow>
          (case checkServices w plugin rest past' of
             Inl p \<Rightarrow> Inl p
           | Inr (result, past'') \<Rightarrow> Inr (health # result, past'')))"

subsection \<open>executeCheck\<close>

text \<open>The counters and the output of the loop over the health values.\<close>

record tally =
  oks :: nat
  warnings :: nat
  criticals :: nat
  unknowns :: nat
  found :: bool
  printed :: "printf list"

definition tally_start :: tally where
  "tally_start = \<lparr>oks = 0, warnings = 0, criticals = 0, unknowns = 0, found = False, printed = []\<rparr>"

text \<open>The \<open>switch\<close> on \<open>h.Status\<close>; it has no default case.\<close>

definition tally_status :: "Health \<Rightarrow> tally \<Rightarrow> tally" where
  "tally_status h t =
     (if Status h = CheckStateOK then t\<lparr>oks := oks t + 1\<rparr>
      else if Status h = CheckStateWarning then
        t\<lparr>warnings := warnings t + 1,
          printed := printed t @ [Text (ServiceGroup h @ '' WARNING'' @ [newline])]\<rparr>
      else if Status h = CheckStateCritical then
        t\<lparr>criticals := criticals t + 1,
          printed := printed t @ [Text (ServiceGroup h @ '' CRITICAL'' @ [newline])]\<rparr>
      else if Status h = CheckStateUnknown then
        t\<lparr>unknowns := unknowns t + 1,
          printed := printed t @ [Text (ServiceGroup h @ '' UNKNOWN'' @ [newline])]\<rparr>
      else t)"

definition tally_error :: "Health \<Rightarrow> tally \<Rightarrow> tally" where
  "tally_error h t =
     (case Error h of
        None \<Rightarrow> t
      | Some e \<Rightarrow> t\<lparr>printed := printed t @ [ErrorReport e]\<rparr>)"

fun tally_loop :: "Health list \<Rightarrow> tally \<Rightarrow> tally" where
  "tally_loop [] t = t"
| "tally_loop (h # health) t =
     tally_loop health (tally_error h (tally_status h (t\<lparr>found := True\<rparr>)))"

text \<open>
  What a run of \<open>executeCheck\<close> leaves behind: the two values it returns, what it
  printed and the requests it sent, in order.
\<close>

record outcome =
  state :: int
  failure :: "error option"
  stdout :: "printf list"
  requests :: "string list"

text \<open>The part of \<open>executeCheck\<close> after \<open>checkServices\<close> has returned.\<close>

definition conclude :: "Health list \<Rightarrow> string list \<Rightarrow> outcome" where
  "conclude health past =
     (let t = tally_loop health tally_start
      in if criticals t > 0 \<or> unknowns t > 0 then
           \<lparr>state = CheckStateCritical, failure = None, stdout = printed t, requests = past\<rparr>
         else if warnings t > 0 then
           \<lparr>state = CheckStateWarning, failure = None, stdout = printed t, requests = past\<rparr>
         else if found t then
           \<lparr>state = CheckStateOK, failure = None,
            stdout = printed t @ [Text ''All health checks returning OK for loaded services''],
            requests = past\<rparr>
         else
           \<lparr>state = CheckStateOK, failure = None,
            stdout = printed t @ [Text ''No services loaded''], requests = past\<rparr>)"

text \<open>
  The services to check: the configured ones, or the enumerated ones when none is
  configured.
\<close>

definition servicesToCheck :: "World \<Rightarrow> Config \<Rightarrow> (error + string list) \<times> string list" where
  "servicesToCheck w plugin =
     (if length (Services plugin) = 0 then getAllServices w plugin []
      else (Inr (Services plugin), []))"

definition executeCheck :: "World \<Rightarrow> Config \<Rightarrow> panic + outcome" where
  "executeCheck w plugin =
     (case servicesToCheck w plugin of
        (Inl e, past) \<Rightarrow>
          Inr \<lparr>state = CheckStateCritical, failure = Some (CouldNotRetrieveServices e),
               stdout = [], requests = past\<rparr>
      | (Inr services, past) \<Rightarrow>
          (case checkServices w plugin services past of
             Inl p \<Rightarrow> Inl p
           | Inr (health, past') \<Rightarrow> Inr (conclude health past')))"

subsection \<open>Notions used in the statements\<close>

text \<open>What the loop of \<open>executeCheck\<close> prints for one health value.\<close>

definition lines_for :: "Health \<Rightarrow> printf list" where
  "lines_for h = printed (tally_error h (tally_status h tally_start))"

text \<open>
  The status word of a state other than OK, and the text that names a service group
  and its status word: the group, a blank, the word and a newline.
\<close>

definition statusWord :: "int \<Rightarrow> string" where
  "statusWord s =
     (if s = CheckStateWarning then ''WARNING''
      else if s = CheckStateCritical then ''CRITICAL''
      else if s = CheckStateUnknown then ''UNKNOWN''
      else [])"

definition statusText :: "Health \<Rightarrow> string" where
  "statusText h = ServiceGroup h @ '' '' @ statusWord (Status h) @ [newline]"

text \<open>A text that is one line of output: it ends in its only newline.\<close>

definition oneLine :: "string \<Rightarrow> bool" where
  "oneLine s = (s \<noteq> [] \<and> last s = newline \<and> newline \<notin> set (butlast s))"

text \<open>
  A health value as \<open>checkService\<close> builds them: one of the four states, and a state
  other than unknown comes without an error.
\<close>

definition produced :: "Health \<Rightarrow> bool" where
  "produced h =
     ((Status h = CheckStateOK \<or> Status h = CheckStateWarning \<or>
       Status h = CheckStateCritical \<or> Status h = CheckStateUnknown) \<and>
      (Error h \<noteq> None \<longrightarrow> Status h = CheckStateUnknown))"

text \<open>Lower case of an ASCII byte; every other byte stays.\<close>

definition toLowerASCII :: "char \<Rightarrow> char" where
  "toLowerASCII c =
     (if 65 \<le> (of_char c :: nat) \<and> (of_char c :: nat) \<le> 90
      then char_of (of_char c + 32 :: nat) else c)"

definition lowerLetters :: "string \<Rightarrow> bool" where
  "lowerLetters t = (\<forall>d\<in>set t. 97 \<le> (of_char d :: nat) \<and> (of_char d :: nat) \<le> 122)"

subsection \<open>A sample supervisor\<close>

text \<open>
  A supervisor to run the program against. On 127.0.0.1 it lists one service,
  \<open>redis.default\<close>, which is not loaded (404); \<open>nginx.default\<close> is healthy,
  \<open>db.default\<close> reports a warning, \<open>mail.default\<close> reports a status that is none
  of the four words and \<open>cache.default\<close> answers with a body that is not JSON. The supervisor on 10.0.0.2 has no service, the one on 10.0.0.3 lists a
  service group without a dot, and nothing else answers. The bodies stand for JSON
  documents: the decoders below read the listed groups and the status off them.
\<close>

definition sample_Do :: "string list \<Rightarrow> string \<Rightarrow> error + Response" where
  "sample_Do past u =
     (if u = ''http://127.0.0.1:9631/services''
        then Inr \<lparr>StatusCode = 200, Body = ''redis.default''\<rparr>
      else if u = ''http://127.0.0.1:9631/services/redis/default/health''
        then Inr \<lparr>StatusCode = 404, Body = []\<rparr>
      else if u = ''http://127.0.0.1:9631/services/nginx/default/health''
        then Inr \<lparr>StatusCode = 200, Body = ''OK''\<rparr>
      else if u = ''http://127.0.0.1:9631/services/db/default/health''
        then Inr \<lparr>StatusCode = 200, Body = ''Warning''\<rparr>
      else if u = ''http://127.0.0.1:9631/services/cache/default/health''
        then Inr \<lparr>StatusCode = 200, Body = ''<html>''\<rparr>
      else if u = ''http://127.0.0.1:9631/services/mail/default/health''
        then Inr \<lparr>StatusCode = 200, Body = ''degraded''\<rparr>
      else if u = ''http://10.0.0.2:9631/services''
        then Inr \<lparr>StatusCode = 200, Body = []\<rparr>
      else if u = ''http://10.0.0.3:9631/services''
        then Inr \<lparr>StatusCode = 200, Body = ''redis''\<rparr>
      else Inl (LibraryError ''connection refused''))"

definition sample :: World where
  "sample =
     \<lparr>url_Parse = (\<lambda>u. None),
      client_Do = sample_Do,
      decode_ServiceResponse = (\<lambda>body. if body = [] then Inr [] else Inr [body]),
      decode_HealthResponse =
        (\<lambda>body. if body = ''<html>'' then Inl (LibraryError ''invalid character'') else Inr body)\<rparr>"

text \<open>
  The same supervisor behind a \<open>url.Parse\<close> that refuses a URL with a newline in it,
  as the library refuses control characters.
\<close>

definition strict :: World where
  "strict =
     sample\<lparr>url_Parse :=
       (\<lambda>u. if newline \<in> set u then Some (LibraryError ''invalid control character in URL'')
            else None)\<rparr>"

definition config :: "string \<Rightarrow> string list \<Rightarrow> Config" where
  "config url services = \<lparr>SupervisorURL = url, Services = services, Timeout = 15\<rparr>"

definition local :: "string list \<Rightarrow> Config" where
  "local services = config ''http://127.0.0.1:9631'' services"

section \<open>Properties\<close>

subsection \<open>Splitting and case folding\<close>

lemma CheckState_distinct:
  "CheckStateOK \<noteq> CheckStateWarning" "CheckStateOK \<noteq> CheckStateCritical"
  "CheckStateOK \<noteq> CheckStateUnknown" "CheckStateWarning \<noteq> CheckStateCritical"
  "CheckStateWarning \<noteq> CheckStateUnknown" "CheckStateCritical \<noteq> CheckStateUnknown"
  "CheckStateWarning \<noteq> CheckStateOK" "CheckStateCritical \<noteq> CheckStateOK"
  "CheckStateUnknown \<noteq> CheckStateOK" "CheckStateCritical \<noteq> CheckStateWarning"
  "CheckStateUnknown \<noteq> CheckStateWarning" "CheckStateUnknown \<noteq> CheckStateCritical"
  by (simp_all add: CheckStateOK_def CheckStateWarning_def CheckStateCritical_def CheckStateUnknown_def)

lemma length_SplitN: "length (SplitN s) = (if CHR ''.'' \<in> set s then 2 else 1)"
  by (simp add: SplitN_def)

lemma of_char_toLower:
  "(of_char (toLowerASCII c) :: nat) = (if 65 \<le> (of_char c :: nat) \<and> (of_char c :: nat) \<le> 90 then of_char c + 32 else of_char c)"
  by (simp add: toLowerASCII_def)

lemma asciiFold_nat:
  "asciiFold a b = ((of_char a :: nat) = of_char b \<or>
      (65 \<le> min (of_char a :: nat) (of_char b) \<and> min (of_char a :: nat) (of_char b) \<le> 90 \<and>
       max (of_char a :: nat) (of_char b) = min (of_char a) (of_char b) + 32))"
  by (simp add: asciiFold_def Let_def)

lemma asciiFold_toLower: "asciiFold (toLowerASCII c) d = asciiFold c d"
  unfolding asciiFold_nat of_char_toLower by (auto simp: min_def max_def)

lemma toLower_low_iff: "((of_char (toLowerASCII c) :: nat) < 128) = ((of_char c :: nat) < 128)"
  by (auto simp: of_char_toLower)

lemma toLower_eq_high:
  assumes "128 \<le> (of_char d :: nat)" shows "(toLowerASCII c = d) = (c = d)"
proof -
  have "(toLowerASCII c = d) = ((of_char (toLowerASCII c) :: nat) = of_char d)" by simp
  also have "\<dots> = ((of_char c :: nat) = of_char d)"
    using assms unfolding of_char_toLower by auto
  finally show ?thesis by simp
qed

lemma map_toLower_kelvin: "(map toLowerASCII x = kelvin) = (x = kelvin)"
  by (cases x; (cases "tl x"; (cases "tl (tl x)"))) (auto simp: kelvin_def toLower_eq_high)

lemma map_toLower_long_s: "(map toLowerASCII x = long_s) = (x = long_s)"
  by (cases x; (cases "tl x")) (auto simp: long_s_def toLower_eq_high)

lemma EqualFold_high:
  assumes "s \<noteq> []" and "\<not> (of_char (hd s) :: nat) < 128"
  shows "EqualFold s (tr # t) =
          (if take 3 s = kelvin \<and> (tr = CHR ''k'' \<or> tr = CHR ''K'') then EqualFold (drop 3 s) t
           else if take 2 s = long_s \<and> (tr = CHR ''s'' \<or> tr = CHR ''S'') then EqualFold (drop 2 s) t
           else False)"
proof (cases s)
  case Nil
  with assms(1) show ?thesis by simp
next
  case (Cons sr s')
  with assms(2) have "\<not> (of_char sr :: nat) < 128" by simp
  then show ?thesis unfolding Cons by (simp only: EqualFold.simps list.case if_False)
qed

lemma EqualFold_toLower: "EqualFold (map toLowerASCII s) t = EqualFold s t"
proof (induction t arbitrary: s)
  case Nil
  show ?case by simp
next
  case (Cons tr t)
  show ?case
  proof (cases s)
    case Nil
    then show ?thesis by simp
  next
    case (Cons sr s')
    show ?thesis
    proof (cases "(of_char sr :: nat) < 128")
      case True
      then show ?thesis
        using Cons Cons.IH[of s'] by (simp add: toLower_low_iff asciiFold_toLower)
    next
      case False
      have k: "(take 3 (map toLowerASCII s) = kelvin) = (take 3 s = kelvin)"
        using map_toLower_kelvin[of "take 3 s"] by (simp add: take_map)
      have l: "(take 2 (map toLowerASCII s) = long_s) = (take 2 s = long_s)"
        using map_toLower_long_s[of "take 2 s"] by (simp add: take_map)
      have d3: "EqualFold (drop 3 (map toLowerASCII s)) t = EqualFold (drop 3 s) t"
        using Cons.IH[of "drop 3 s"] by (simp add: drop_map)
      have d2: "EqualFold (drop 2 (map toLowerASCII s)) t = EqualFold (drop 2 s) t"
        using Cons.IH[of "drop 2 s"] by (simp add: drop_map)
      have n: "s \<noteq> []" "\<not> (of_char (hd s) :: nat) < 128"
        using Cons False by simp_all
      have n': "map toLowerASCII s \<noteq> []" "\<not> (of_char (hd (map toLowerASCII s)) :: nat) < 128"
        using Cons False by (simp_all add: toLower_low_iff)
      show ?thesis
        unfolding EqualFold_high[OF n] EqualFold_high[OF n'] k l d3 d2 ..
    qed
  qed
qed

lemma EqualFold_lowered:
  "\<forall>c\<in>set x. (of_char c :: nat) < 128 \<and> \<not> (65 \<le> (of_char c :: nat) \<and> (of_char c :: nat) \<le> 90) \<Longrightarrow>
   lowerLetters t \<Longrightarrow> EqualFold x t = (x = t)"
proof (induction t arbitrary: x)
  case Nil
  show ?case by simp
next
  case (Cons tr t)
  show ?case
  proof (cases x)
    case Nil
    then show ?thesis by simp
  next
    case (Cons sr x')
    have a: "asciiFold sr tr = (sr = tr)"
      using Cons.prems Cons unfolding asciiFold_nat lowerLetters_def by (auto simp: min_def max_def)
    show ?thesis
      using Cons Cons.prems Cons.IH[of x'] a by (auto simp: lowerLetters_def)
  qed
qed

lemma EqualFold_ascii:
  assumes "\<forall>c\<in>set s. (of_char c :: nat) < 128" and "lowerLetters t"
  shows "EqualFold s t = (map toLowerASCII s = t)"
proof -
  have "\<forall>c\<in>set (map toLowerASCII s). (of_char c :: nat) < 128 \<and> \<not> (65 \<le> (of_char c :: nat) \<and> (of_char c :: nat) \<le> 90)"
    using assms(1) by (auto simp: of_char_toLower)
  then have "EqualFold (map toLowerASCII s) t = (map toLowerASCII s = t)"
    using assms(2) by (rule EqualFold_lowered)
  then show ?thesis by (simp add: EqualFold_toLower)
qed

text \<open>The Kelvin sign is a case variant of \<open>k\<close> for \<open>EqualFold\<close>.\<close>

lemma EqualFold_kelvin: "EqualFold (''o'' @ kelvin) ''ok''" and "\<not> EqualFold ''o.'' ''ok''"
  by (simp_all add: asciiFold_def kelvin_def)

lemma lowerLetters_words:
  "lowerLetters ''ok''" "lowerLetters ''warning''" "lowerLetters ''critical''" "lowerLetters ''unknown''"
  by (simp_all add: lowerLetters_def)

subsection \<open>The health of the services\<close>

lemma healthStatus_cases:
  "healthStatus status CheckStateUnknown = CheckStateOK \<or>
   healthStatus status CheckStateUnknown = CheckStateWarning \<or>
   healthStatus status CheckStateUnknown = CheckStateCritical \<or>
   healthStatus status CheckStateUnknown = CheckStateUnknown"
  by (simp add: healthStatus_def)

lemma checkService_panic_iff:
  "(checkService w plugin service past = Inl IndexOutOfRange) = (CHR ''.'' \<notin> set service)"
  by (simp add: checkService_def length_SplitN Let_def split: option.split sum.split)

lemma checkService_Inr:
  assumes "checkService w plugin service past = Inr (h, past')"
  shows "ServiceGroup h = service" and "produced h"
  using assms
  by (auto simp: checkService_def Let_def produced_def healthStatus_def split: if_splits option.splits sum.splits)

lemma checkServices_append:
  "checkServices w plugin (xs @ ys) past =
     (case checkServices w plugin xs past of
        Inl p \<Rightarrow> Inl p
      | Inr (hs, past') \<Rightarrow>
          (case checkServices w plugin ys past' of
             Inl p \<Rightarrow> Inl p
           | Inr (hs', past'') \<Rightarrow> Inr (hs @ hs', past'')))"
  by (induction xs arbitrary: past) (auto split: sum.splits prod.splits)

lemma checkServices_Inr_iff:
  "(\<exists>r. checkServices w plugin services past = Inr r) = (\<forall>s\<in>set services. CHR ''.'' \<in> set s)"
proof (induction services arbitrary: past)
  case Nil
  show ?case by simp
next
  case (Cons s services)
  show ?case
  proof (cases "checkService w plugin s past")
    case (Inl p)
    then have "CHR ''.'' \<notin> set s"
      using checkService_panic_iff[of w plugin s past] by (cases p) simp
    with Inl show ?thesis by simp
  next
    case (Inr r)
    then have "CHR ''.'' \<in> set s"
      using checkService_panic_iff[of w plugin s past] by auto
    with Inr Cons.IH[of "snd r"] show ?thesis
      by (cases r) (auto split: sum.splits)
  qed
qed

lemma checkServices_health:
  "checkServices w plugin services past = Inr (hs, past') \<Longrightarrow>
     map ServiceGroup hs = services \<and> (\<forall>h\<in>set hs. produced h)"
proof (induction services arbitrary: past hs)
  case Nil
  then show ?case by simp
next
  case (Cons s services)
  then show ?case
    by (auto split: sum.splits prod.splits dest: checkService_Inr)
qed

subsection \<open>The loop over the health values\<close>

lemma tally_step_simps:
  "warnings (tally_error h t) = warnings t" "criticals (tally_error h t) = criticals t"
  "unknowns (tally_error h t) = unknowns t" "found (tally_error h t) = found t"
  "oks (tally_error h t) = oks t"
  "found (tally_status h t) = found t"
  "warnings (tally_status h t) = warnings t + (if Status h = CheckStateWarning then 1 else 0)"
  "criticals (tally_status h t) = criticals t + (if Status h = CheckStateCritical then 1 else 0)"
  "unknowns (tally_status h t) = unknowns t + (if Status h = CheckStateUnknown then 1 else 0)"
  by (simp_all add: tally_error_def tally_status_def CheckState_distinct split: option.split)

lemma printed_step:
  "printed (tally_error h (tally_status h t)) = printed t @ lines_for h"
  by (simp add: lines_for_def tally_error_def tally_status_def tally_start_def split: option.split)

lemma tally_loop_warnings:
  "warnings (tally_loop health t) = warnings t + length [h\<leftarrow>health. Status h = CheckStateWarning]"
  by (induction health arbitrary: t) (simp_all add: tally_step_simps)

lemma tally_loop_criticals:
  "criticals (tally_loop health t) = criticals t + length [h\<leftarrow>health. Status h = CheckStateCritical]"
  by (induction health arbitrary: t) (simp_all add: tally_step_simps)

lemma tally_loop_unknowns:
  "unknowns (tally_loop health t) = unknowns t + length [h\<leftarrow>health. Status h = CheckStateUnknown]"
  by (induction health arbitrary: t) (simp_all add: tally_step_simps)

lemma tally_loop_found:
  "found (tally_loop health t) = (found t \<or> health \<noteq> [])"
  by (induction health arbitrary: t) (simp_all add: tally_step_simps)

lemma tally_loop_printed:
  "printed (tally_loop health t) = printed t @ concat (map lines_for health)"
  by (induction health arbitrary: t) (simp_all add: printed_step)

lemma tally_pos:
  "(0 < warnings (tally_loop health tally_start)) = (\<exists>h\<in>set health. Status h = CheckStateWarning)"
  "(0 < criticals (tally_loop health tally_start)) = (\<exists>h\<in>set health. Status h = CheckStateCritical)"
  "(0 < unknowns (tally_loop health tally_start)) = (\<exists>h\<in>set health. Status h = CheckStateUnknown)"
  unfolding tally_loop_warnings tally_loop_criticals tally_loop_unknowns
  by (simp_all add: tally_start_def filter_empty_conv)

lemma conclude_unfold:
  "conclude health past =
     (if (\<exists>h\<in>set health. Status h = CheckStateCritical) \<or> (\<exists>h\<in>set health. Status h = CheckStateUnknown) then
        \<lparr>state = CheckStateCritical, failure = None,
         stdout = concat (map lines_for health), requests = past\<rparr>
      else if \<exists>h\<in>set health. Status h = CheckStateWarning then
        \<lparr>state = CheckStateWarning, failure = None,
         stdout = concat (map lines_for health), requests = past\<rparr>
      else if health \<noteq> [] then
        \<lparr>state = CheckStateOK, failure = None,
         stdout = concat (map lines_for health) @
           [Text ''All health checks returning OK for loaded services''], requests = past\<rparr>
      else
        \<lparr>state = CheckStateOK, failure = None, stdout = [Text ''No services loaded''],
         requests = past\<rparr>)"
  unfolding conclude_def Let_def tally_pos tally_loop_printed tally_loop_found
  by (simp add: tally_start_def)

lemma conclude_state:
  "state (conclude health past) =
     (if \<exists>h\<in>set health. Status h = CheckStateCritical \<or> Status h = CheckStateUnknown
        then CheckStateCritical
      else if \<exists>h\<in>set health. Status h = CheckStateWarning then CheckStateWarning
      else CheckStateOK)"
  unfolding conclude_unfold by auto

lemma conclude_failure: "failure (conclude health past) = None"
  by (simp add: conclude_def Let_def)

lemma conclude_stdout:
  assumes "\<forall>h\<in>set health. produced h"
  shows "stdout (conclude health past) =
     concat (map lines_for health) @
     (if \<exists>h\<in>set health. Status h \<noteq> CheckStateOK then []
      else if health = [] then [Text ''No services loaded'']
      else [Text ''All health checks returning OK for loaded services''])"
proof (cases "\<exists>h\<in>set health. Status h \<noteq> CheckStateOK")
  case True
  then obtain h where h: "h \<in> set health" "Status h \<noteq> CheckStateOK" by blast
  with assms have "Status h = CheckStateWarning \<or> Status h = CheckStateCritical \<or> Status h = CheckStateUnknown"
    by (auto simp: produced_def)
  with h(1) have "(\<exists>h\<in>set health. Status h = CheckStateCritical) \<or> (\<exists>h\<in>set health. Status h = CheckStateUnknown)
     \<or> (\<exists>h\<in>set health. Status h = CheckStateWarning)"
    by blast
  with True show ?thesis
    unfolding conclude_unfold by auto
next
  case False
  then have "\<not> (\<exists>h\<in>set health. Status h = CheckStateCritical)" "\<not> (\<exists>h\<in>set health. Status h = CheckStateUnknown)"
    "\<not> (\<exists>h\<in>set health. Status h = CheckStateWarning)"
    by (auto simp: CheckState_distinct)
  with False show ?thesis
    unfolding conclude_unfold by (simp add: CheckState_distinct)
qed

subsection \<open>checkArgs\<close>

lemma checkArgs_loop_None:
  "(checkArgs_loop services = None) = (\<forall>s\<in>set services. CHR ''.'' \<in> set s)"
  by (induction services) (auto simp: length_SplitN)

lemma checkArgs_loop_Some:
  "checkArgs_loop services = Some s \<Longrightarrow> s \<in> set services \<and> CHR ''.'' \<notin> set s"
  by (induction services) (auto simp: length_SplitN split: if_splits)

text \<open>
  C2 as stated fails: \<open>checkArgs\<close> accepts an identifier with an empty name, one with
  an empty group and one with two dots. Each splits in two on its first dot, which is
  all the length test asks for.
\<close>

theorem checkArgs_accepts_empty_parts:
  "SplitN ''.default'' = ['''', ''default''] \<and>
   SplitN ''redis.'' = [''redis'', ''''] \<and>
   SplitN ''redis.default.prod'' = [''redis'', ''default.prod''] \<and>
   checkArgs sample (local [''.default'', ''redis.'', ''redis.default.prod'']) = (CheckStateOK, None)"
  by (simp add: SplitN_def checkArgs_def sample_def local_def config_def)

text \<open>
  C2, amended: \<open>checkArgs\<close> returns the warning state with an error exactly when some
  supplied identifier contains no dot or the supervisor URL does not parse; otherwise
  it returns OK and no error. It makes no network call: whatever the HTTP client and
  the decoders would answer, its result is the same.
\<close>

theorem checkArgs_warning_iff:
  "(fst (checkArgs w plugin) = CheckStateWarning \<and> snd (checkArgs w plugin) \<noteq> None) =
     ((\<exists>s\<in>set (Services plugin). CHR ''.'' \<notin> set s) \<or> url_Parse w (SupervisorURL plugin) \<noteq> None) \<and>
   (checkArgs w plugin = (CheckStateOK, None)) =
     ((\<forall>s\<in>set (Services plugin). CHR ''.'' \<in> set s) \<and> url_Parse w (SupervisorURL plugin) = None) \<and>
   checkArgs (w\<lparr>client_Do := cd, decode_ServiceResponse := ds, decode_HealthResponse := dh\<rparr>) plugin =
     checkArgs w plugin"
proof -
  have "checkArgs (w\<lparr>client_Do := cd, decode_ServiceResponse := ds, decode_HealthResponse := dh\<rparr>) plugin =
      checkArgs w plugin"
  proof -
    have "url_Parse (w\<lparr>client_Do := cd, decode_ServiceResponse := ds, decode_HealthResponse := dh\<rparr>) =
        url_Parse w"
      by simp
    then show ?thesis
      by (simp only: checkArgs_def)
  qed
  then show ?thesis
    using checkArgs_loop_None[of "Services plugin"]
    by (auto simp: checkArgs_def CheckState_distinct split: option.splits dest: checkArgs_loop_Some)
qed

theorem checkArgs_warning_iff_witness:
  "fst (checkArgs sample (local [''redis.default'', ''redis''])) = CheckStateWarning \<and>
   snd (checkArgs sample (local [''redis.default'', ''redis''])) \<noteq> None \<and>
   checkArgs sample (local [''redis.default'']) = (CheckStateOK, None) \<and>
   checkArgs (sample\<lparr>client_Do := (\<lambda>past u. Inl (LibraryError ''no network'')),
                decode_ServiceResponse := (\<lambda>body. Inl (LibraryError ''no decoder'')),
                decode_HealthResponse := (\<lambda>body. Inl (LibraryError ''no decoder''))\<rparr>)
       (local [''redis.default'']) = (CheckStateOK, None)"
proof -
  from checkArgs_warning_iff[of sample "local [''redis.default'', ''redis'']"]
  have "fst (checkArgs sample (local [''redis.default'', ''redis''])) = CheckStateWarning \<and>
      snd (checkArgs sample (local [''redis.default'', ''redis''])) \<noteq> None"
    by (simp add: sample_def local_def config_def)
  moreover from checkArgs_warning_iff[where w = sample and plugin = "local [''redis.default'']"
      and cd = "\<lambda>past u. Inl (LibraryError ''no network'')"
      and ds = "\<lambda>body. Inl (LibraryError ''no decoder'')"
      and dh = "\<lambda>body. Inl (LibraryError ''no decoder'')"]
  have "checkArgs sample (local [''redis.default'']) = (CheckStateOK, None)"
    and "checkArgs (sample\<lparr>client_Do := (\<lambda>past u. Inl (LibraryError ''no network'')),
                decode_ServiceResponse := (\<lambda>body. Inl (LibraryError ''no decoder'')),
                decode_HealthResponse := (\<lambda>body. Inl (LibraryError ''no decoder''))\<rparr>)
       (local [''redis.default'']) = checkArgs sample (local [''redis.default''])"
    by (simp_all add: sample_def local_def config_def)
  ultimately show ?thesis
    by simp
qed

subsection \<open>The sample supervisor, evaluated\<close>

lemma sample_urls:
  "servicesUrl (config ''http://127.0.0.1:9631'' services) = ''http://127.0.0.1:9631/services''"
  "servicesUrl (config ''http://10.0.0.2:9631'' services) = ''http://10.0.0.2:9631/services''"
  "servicesUrl (config ''http://10.0.0.3:9631'' services) = ''http://10.0.0.3:9631/services''"
  "servicesUrl (config ''http://10.0.0.4:9631'' services) = ''http://10.0.0.4:9631/services''"
  "healthUrl (local services) ''redis.default'' = ''http://127.0.0.1:9631/services/redis/default/health''"
  "healthUrl (local services) ''nginx.default'' = ''http://127.0.0.1:9631/services/nginx/default/health''"
  "healthUrl (local services) ''db.default'' = ''http://127.0.0.1:9631/services/db/default/health''"
  "healthUrl (local services) ''cache.default'' = ''http://127.0.0.1:9631/services/cache/default/health''"
  "healthUrl (local services) ''queue.default'' = ''http://127.0.0.1:9631/services/queue/default/health''"
  "healthUrl (local services) ''mail.default'' = ''http://127.0.0.1:9631/services/mail/default/health''"
  by (simp_all add: servicesUrl_def healthUrl_def getSupervisorUrl_def TrimSuffix_def HasSuffix_def
      local_def config_def SplitN_def)

lemma sample_dots:
  "CHR ''.'' \<in> set ''redis.default''" "CHR ''.'' \<in> set ''nginx.default''"
  "CHR ''.'' \<in> set ''db.default''" "CHR ''.'' \<in> set ''cache.default''"
  "CHR ''.'' \<in> set ''queue.default''" "CHR ''.'' \<notin> set ''redis''"
  "CHR ''.'' \<in> set ''mail.default''"
  by simp_all

lemma sample_replies:
  "sample_Do past ''http://127.0.0.1:9631/services'' = Inr \<lparr>StatusCode = 200, Body = ''redis.default''\<rparr>"
  "sample_Do past ''http://127.0.0.1:9631/services/redis/default/health'' = Inr \<lparr>StatusCode = 404, Body = []\<rparr>"
  "sample_Do past ''http://127.0.0.1:9631/services/nginx/default/health'' = Inr \<lparr>StatusCode = 200, Body = ''OK''\<rparr>"
  "sample_Do past ''http://127.0.0.1:9631/services/db/default/health'' = Inr \<lparr>StatusCode = 200, Body = ''Warning''\<rparr>"
  "sample_Do past ''http://127.0.0.1:9631/services/cache/default/health'' = Inr \<lparr>StatusCode = 200, Body = ''<html>''\<rparr>"
  "sample_Do past ''http://127.0.0.1:9631/services/queue/default/health'' = Inl (LibraryError ''connection refused'')"
  "sample_Do past ''http://127.0.0.1:9631/services/mail/default/health'' = Inr \<lparr>StatusCode = 200, Body = ''degraded''\<rparr>"
  "sample_Do past ''http://10.0.0.2:9631/services'' = Inr \<lparr>StatusCode = 200, Body = []\<rparr>"
  "sample_Do past ''http://10.0.0.3:9631/services'' = Inr \<lparr>StatusCode = 200, Body = ''redis''\<rparr>"
  "sample_Do past ''http://10.0.0.4:9631/services'' = Inl (LibraryError ''connection refused'')"
  by (simp_all add: sample_Do_def)

lemma sample_fields:
  "url_Parse sample u = None" "client_Do sample = sample_Do"
  "decode_ServiceResponse sample [] = Inr []"
  "decode_ServiceResponse sample ''redis.default'' = Inr [''redis.default'']"
  "decode_ServiceResponse sample ''redis'' = Inr [''redis'']"
  "decode_HealthResponse sample ''OK'' = Inr ''OK''"
  "decode_HealthResponse sample ''Warning'' = Inr ''Warning''"
  "decode_HealthResponse sample ''degraded'' = Inr ''degraded''"
  "decode_HealthResponse sample ''<html>'' = Inl (LibraryError ''invalid character'')"
  by (simp_all add: sample_def)

lemma sample_status:
  "healthStatus ''OK'' CheckStateUnknown = CheckStateOK"
  "healthStatus ''Warning'' CheckStateUnknown = CheckStateWarning"
  by (simp_all add: healthStatus_def asciiFold_def)

lemma sample_health:
  "checkService sample (local services) ''redis.default'' past =
     Inr (\<lparr>ServiceGroup = ''redis.default'', Status = CheckStateUnknown, Error = None\<rparr>,
          past @ [''http://127.0.0.1:9631/services/redis/default/health''])"
  "checkService sample (local services) ''nginx.default'' past =
     Inr (\<lparr>ServiceGroup = ''nginx.default'', Status = CheckStateOK, Error = None\<rparr>,
          past @ [''http://127.0.0.1:9631/services/nginx/default/health''])"
  "checkService sample (local services) ''db.default'' past =
     Inr (\<lparr>ServiceGroup = ''db.default'', Status = CheckStateWarning, Error = None\<rparr>,
          past @ [''http://127.0.0.1:9631/services/db/default/health''])"
  "checkService sample (local services) ''cache.default'' past =
     Inr (\<lparr>ServiceGroup = ''cache.default'', Status = CheckStateUnknown,
           Error = Some (DecodeHealthResponse (LibraryError ''invalid character''))\<rparr>,
          past @ [''http://127.0.0.1:9631/services/cache/default/health''])"
  "checkService sample (local services) ''queue.default'' past =
     Inr (\<lparr>ServiceGroup = ''queue.default'', Status = CheckStateUnknown,
           Error = Some (LibraryError ''connection refused'')\<rparr>,
          past @ [''http://127.0.0.1:9631/services/queue/default/health''])"
  by (simp_all add: checkService_def Let_def sample_urls sample_fields sample_replies
      length_SplitN sample_status)

lemma sample_run3:
  "checkServices sample (local services) [''nginx.default'', ''db.default'', ''redis.default''] [] =
     Inr ([\<lparr>ServiceGroup = ''nginx.default'', Status = CheckStateOK, Error = None\<rparr>,
           \<lparr>ServiceGroup = ''db.default'', Status = CheckStateWarning, Error = None\<rparr>,
           \<lparr>ServiceGroup = ''redis.default'', Status = CheckStateUnknown, Error = None\<rparr>],
          [''http://127.0.0.1:9631/services/nginx/default/health'',
           ''http://127.0.0.1:9631/services/db/default/health'',
           ''http://127.0.0.1:9631/services/redis/default/health''])"
  by (simp add: sample_health)

lemma servicesToCheck_explicit:
  "services \<noteq> [] \<Longrightarrow> servicesToCheck w (config url services) = (Inr services, [])"
  "services \<noteq> [] \<Longrightarrow> servicesToCheck w (local services) = (Inr services, [])"
  by (simp_all add: servicesToCheck_def config_def local_def)

lemma sample_enumeration:
  "getAllServices sample (config ''http://10.0.0.2:9631'' []) [] =
     (Inr [], [''http://10.0.0.2:9631/services''])"
  "getAllServices sample (config ''http://127.0.0.1:9631'' []) [] =
     (Inr [''redis.default''], [''http://127.0.0.1:9631/services''])"
  by (simp_all add: getAllServices_def sample_urls sample_fields sample_replies)

lemma servicesToCheck_enumerated:
  "servicesToCheck w (config url []) = getAllServices w (config url []) []"
  by (simp add: servicesToCheck_def config_def)

subsection \<open>The request URLs\<close>

lemma TrimSuffix_slash: "TrimSuffix (u @ ''/'') ''/'' = u"
  by (simp add: TrimSuffix_def HasSuffix_def)

lemma TrimSuffix_no_slash: "\<not> HasSuffix u ''/'' \<Longrightarrow> TrimSuffix u ''/'' = u"
  by (simp add: TrimSuffix_def)

text \<open>
  C8 as stated fails for a base URL that ends in two slashes: \<open>TrimSuffix\<close> removes
  one, so the paths keep a doubled slash and differ from those of the URL with one
  slash removed.
\<close>

theorem double_slash_survives:
  "servicesUrl (config ''http://127.0.0.1:9631//'' []) = ''http://127.0.0.1:9631//services'' \<and>
   servicesUrl (config ''http://127.0.0.1:9631/'' []) = ''http://127.0.0.1:9631/services'' \<and>
   healthUrl (config ''http://127.0.0.1:9631//'' []) ''redis.default'' =
     ''http://127.0.0.1:9631//services/redis/default/health'' \<and>
   healthUrl (config ''http://127.0.0.1:9631/'' []) ''redis.default'' =
     ''http://127.0.0.1:9631/services/redis/default/health'' \<and>
   servicesUrl (config ''http://127.0.0.1:9631//'' []) \<noteq>
     servicesUrl (config ''http://127.0.0.1:9631/'' [])"
  by (simp add: servicesUrl_def healthUrl_def getSupervisorUrl_def TrimSuffix_def HasSuffix_def
      config_def SplitN_def)

text \<open>
  C8, amended: for every base URL \<open>u\<close> that does not itself end in a slash, the
  enumeration URL and every health URL built from \<open>u/\<close> are those built from
  \<open>u\<close>, namely \<open>u/services\<close> and \<open>u/services/name/group/health\<close>, and the whole
  run is the same.
\<close>

theorem trailing_slash_stripped:
  assumes "\<not> HasSuffix u ''/''"
  shows "servicesUrl (plugin\<lparr>SupervisorURL := u @ ''/''\<rparr>) = servicesUrl (plugin\<lparr>SupervisorURL := u\<rparr>) \<and>
         servicesUrl (plugin\<lparr>SupervisorURL := u @ ''/''\<rparr>) = u @ ''/services'' \<and>
         healthUrl (plugin\<lparr>SupervisorURL := u @ ''/''\<rparr>) service = healthUrl (plugin\<lparr>SupervisorURL := u\<rparr>) service \<and>
         healthUrl (plugin\<lparr>SupervisorURL := u @ ''/''\<rparr>) service =
           u @ ''/services/'' @ SplitN service ! 0 @ ''/'' @ SplitN service ! 1 @ ''/health'' \<and>
         executeCheck w (plugin\<lparr>SupervisorURL := u @ ''/''\<rparr>) = executeCheck w (plugin\<lparr>SupervisorURL := u\<rparr>)"
proof -
  have g: "getSupervisorUrl (plugin\<lparr>SupervisorURL := u @ ''/''\<rparr>) = u"
    "getSupervisorUrl (plugin\<lparr>SupervisorURL := u\<rparr>) = u"
    using assms by (simp_all add: getSupervisorUrl_def TrimSuffix_slash TrimSuffix_no_slash)
  have s: "servicesUrl (plugin\<lparr>SupervisorURL := u @ ''/''\<rparr>) = servicesUrl (plugin\<lparr>SupervisorURL := u\<rparr>)"
    by (simp add: servicesUrl_def g)
  have h: "healthUrl (plugin\<lparr>SupervisorURL := u @ ''/''\<rparr>) x = healthUrl (plugin\<lparr>SupervisorURL := u\<rparr>) x" for x
    by (simp add: healthUrl_def g)
  have c: "checkService w (plugin\<lparr>SupervisorURL := u @ ''/''\<rparr>) = checkService w (plugin\<lparr>SupervisorURL := u\<rparr>)"
    by (intro ext) (simp only: checkService_def h)
  have cs: "checkServices w (plugin\<lparr>SupervisorURL := u @ ''/''\<rparr>) services past =
      checkServices w (plugin\<lparr>SupervisorURL := u\<rparr>) services past" for services past
    by (induction services arbitrary: past) (simp_all add: c cong: sum.case_cong prod.case_cong)
  have sv: "Services (plugin\<lparr>SupervisorURL := x\<rparr>) = Services plugin" for x
    by simp
  have a: "getAllServices w (plugin\<lparr>SupervisorURL := u @ ''/''\<rparr>) = getAllServices w (plugin\<lparr>SupervisorURL := u\<rparr>)"
    by (rule ext) (simp only: getAllServices_def s)
  have "executeCheck w (plugin\<lparr>SupervisorURL := u @ ''/''\<rparr>) = executeCheck w (plugin\<lparr>SupervisorURL := u\<rparr>)"
    by (simp only: executeCheck_def servicesToCheck_def a cs sv)
  then show ?thesis
    using s h by (simp add: servicesUrl_def healthUrl_def g)
qed

theorem trailing_slash_stripped_witness:
  "\<not> HasSuffix ''http://127.0.0.1:9631'' ''/'' \<and>
   servicesUrl (config ''http://127.0.0.1:9631/'' []) = ''http://127.0.0.1:9631/services'' \<and>
   healthUrl (config ''http://127.0.0.1:9631/'' []) ''redis.default'' =
     ''http://127.0.0.1:9631/services/redis/default/health''"
proof -
  have h: "\<not> HasSuffix ''http://127.0.0.1:9631'' ''/''"
    by (simp add: HasSuffix_def)
  note t = trailing_slash_stripped[OF h, of "config [] []" "''redis.default''" sample]
  have c: "(config [] [])\<lparr>SupervisorURL := ''http://127.0.0.1:9631'' @ ''/''\<rparr> =
      config ''http://127.0.0.1:9631/'' []"
    by (simp add: config_def)
  from t have "servicesUrl (config ''http://127.0.0.1:9631/'' []) = ''http://127.0.0.1:9631'' @ ''/services''"
    unfolding c by blast
  moreover from t have "healthUrl (config ''http://127.0.0.1:9631/'' []) ''redis.default'' =
      ''http://127.0.0.1:9631'' @ ''/services/'' @ SplitN ''redis.default'' ! 0 @ ''/'' @
      SplitN ''redis.default'' ! 1 @ ''/health''"
    unfolding c by blast
  ultimately show ?thesis
    using h by (simp add: SplitN_def)
qed

subsection \<open>The index into the split service\<close>

lemma executeCheck_reached:
  assumes "servicesToCheck w plugin = (Inr services, past)"
    and "checkServices w plugin services past = Inr (health, past')"
  shows "executeCheck w plugin = Inr (conclude health past')"
  using assms by (simp add: executeCheck_def)

text \<open>
  C10: \<open>checkService\<close> reads \<open>serviceSplit[1]\<close> unguarded. The read is out of range
  exactly when the service has no dot; a list of services is checked without a panic
  exactly when each has a dot; and enumerated service groups, which \<open>checkArgs\<close>
  never sees, make \<open>executeCheck\<close> panic exactly when one of them has no dot.
\<close>

theorem index_safe_iff_dot:
  "(checkService w plugin service past = Inl IndexOutOfRange) = (CHR ''.'' \<notin> set service) \<and>
   (\<exists>r. checkServices w plugin services past = Inr r) = (\<forall>s\<in>set services. CHR ''.'' \<in> set s) \<and>
   (Services plugin = [] \<and> getAllServices w plugin [] = (Inr services, past) \<longrightarrow>
      (executeCheck w plugin = Inl IndexOutOfRange) = (\<exists>s\<in>set services. CHR ''.'' \<notin> set s))"
proof -
  have "(executeCheck w plugin = Inl IndexOutOfRange) = (\<exists>s\<in>set services. CHR ''.'' \<notin> set s)"
    if "Services plugin = []" and "getAllServices w plugin [] = (Inr services, past)"
  proof -
    have "(checkServices w plugin services past = Inl IndexOutOfRange) =
        (\<not> (\<exists>r. checkServices w plugin services past = Inr r))"
      by (cases "checkServices w plugin services past") (auto intro: panic.exhaust)
    moreover have "(executeCheck w plugin = Inl IndexOutOfRange) =
        (checkServices w plugin services past = Inl IndexOutOfRange)"
      using that by (auto simp: executeCheck_def servicesToCheck_def split: sum.splits)
    ultimately show ?thesis
      using checkServices_Inr_iff[of w plugin services past] by blast
  qed
  then show ?thesis
    using checkService_panic_iff[of w plugin service past]
      checkServices_Inr_iff[of w plugin services past] by blast
qed

theorem index_safe_iff_dot_witness:
  "checkService sample (local []) ''redis'' [] = Inl IndexOutOfRange \<and>
   (\<exists>r. checkServices sample (local []) [''redis.default'', ''nginx.default''] [] = Inr r) \<and>
   checkArgs sample (config ''http://10.0.0.3:9631'' []) = (CheckStateOK, None) \<and>
   getAllServices sample (config ''http://10.0.0.3:9631'' []) [] =
     (Inr [''redis''], [''http://10.0.0.3:9631/services'']) \<and>
   executeCheck sample (config ''http://10.0.0.3:9631'' []) = Inl IndexOutOfRange"
proof -
  have g: "getAllServices sample (config ''http://10.0.0.3:9631'' []) [] =
      (Inr [''redis''], [''http://10.0.0.3:9631/services''])"
    by (simp add: getAllServices_def sample_urls sample_fields sample_replies)
  have s: "Services (config ''http://10.0.0.3:9631'' []) = []"
    by (simp add: config_def)
  have a: "checkArgs sample (config ''http://10.0.0.3:9631'' []) = (CheckStateOK, None)"
    by (simp add: checkArgs_def config_def sample_fields)
  from index_safe_iff_dot[of sample "local []" "''redis''" "[]" "[''redis.default'', ''nginx.default'']"]
  have "checkService sample (local []) ''redis'' [] = Inl IndexOutOfRange"
    and "\<exists>r. checkServices sample (local []) [''redis.default'', ''nginx.default''] [] = Inr r"
    by simp_all
  moreover from index_safe_iff_dot[of sample "config ''http://10.0.0.3:9631'' []" "''redis''"
      "[''http://10.0.0.3:9631/services'']" "[''redis'']"] s g
  have "executeCheck sample (config ''http://10.0.0.3:9631'' []) = Inl IndexOutOfRange"
    by simp
  ultimately show ?thesis
    using g a by simp
qed

subsection \<open>The aggregate state\<close>

text \<open>
  C1: when \<open>executeCheck\<close> has collected the health values of the services, it
  returns no error and the state CRITICAL if some health is CRITICAL or UNKNOWN,
  otherwise WARNING if some health is WARNING, otherwise OK.
\<close>

theorem aggregate_precedence:
  assumes "servicesToCheck w plugin = (Inr services, past)"
    and "checkServices w plugin services past = Inr (health, past')"
  shows "\<exists>r. executeCheck w plugin = Inr r \<and> failure r = None \<and>
           state r =
             (if \<exists>h\<in>set health. Status h = CheckStateCritical \<or> Status h = CheckStateUnknown
                then CheckStateCritical
              else if \<exists>h\<in>set health. Status h = CheckStateWarning then CheckStateWarning
              else CheckStateOK)"
  using executeCheck_reached[OF assms] by (simp add: conclude_state conclude_failure)

theorem aggregate_precedence_witness:
  "\<exists>r. executeCheck sample (local [''nginx.default'', ''db.default'', ''redis.default'']) = Inr r \<and>
        failure r = None \<and> state r = CheckStateCritical"
proof -
  have "servicesToCheck sample (local [''nginx.default'', ''db.default'', ''redis.default'']) =
      (Inr [''nginx.default'', ''db.default'', ''redis.default''], [])"
    by (simp add: servicesToCheck_explicit)
  from aggregate_precedence[OF this sample_run3] show ?thesis
    by simp
qed

text \<open>
  C4: with no configured service, when the enumeration request fails in the network
  or its body does not decode, \<open>executeCheck\<close> returns CRITICAL with an error, prints
  nothing, and the enumeration request is the only request it sent.
\<close>

theorem enumeration_failure_is_critical:
  assumes "Services plugin = []"
    and "url_Parse w (servicesUrl plugin) = None"
    and "client_Do w [] (servicesUrl plugin) = Inl e \<and> err = e \<or>
         (\<exists>resp. client_Do w [] (servicesUrl plugin) = Inr resp \<and>
            decode_ServiceResponse w (Body resp) = Inl e \<and> err = DecodeServiceResponse e)"
  shows "executeCheck w plugin =
           Inr \<lparr>state = CheckStateCritical, failure = Some (CouldNotRetrieveServices err),
                stdout = [], requests = [servicesUrl plugin]\<rparr>"
  using assms by (auto simp: executeCheck_def servicesToCheck_def getAllServices_def)

theorem enumeration_failure_is_critical_witness:
  "executeCheck sample (config ''http://10.0.0.4:9631'' []) =
     Inr \<lparr>state = CheckStateCritical,
          failure = Some (CouldNotRetrieveServices (LibraryError ''connection refused'')),
          stdout = [], requests = [''http://10.0.0.4:9631/services'']\<rparr>"
  using enumeration_failure_is_critical[of "config ''http://10.0.0.4:9631'' []" sample
      "LibraryError ''connection refused''" "LibraryError ''connection refused''"]
  by (simp add: sample_urls sample_fields sample_replies) (simp add: config_def)

subsection \<open>What the run prints\<close>

lemma lines_for_unfold:
  "lines_for h =
     (if Status h = CheckStateWarning then [Text (ServiceGroup h @ '' WARNING'' @ [newline])]
      else if Status h = CheckStateCritical then [Text (ServiceGroup h @ '' CRITICAL'' @ [newline])]
      else if Status h = CheckStateUnknown then [Text (ServiceGroup h @ '' UNKNOWN'' @ [newline])]
      else []) @
     (case Error h of None \<Rightarrow> [] | Some e \<Rightarrow> [ErrorReport e])"
  by (simp add: lines_for_def tally_error_def tally_status_def tally_start_def CheckState_distinct
      split: option.split)

lemma lines_for_ok:
  "produced h \<Longrightarrow> Status h = CheckStateOK \<Longrightarrow> lines_for h = []"
  by (auto simp: lines_for_unfold produced_def CheckState_distinct)

lemma lines_for_failing:
  "produced h \<Longrightarrow> Status h \<noteq> CheckStateOK \<Longrightarrow>
     lines_for h =
       Text (statusText h) # (case Error h of None \<Rightarrow> [] | Some e \<Rightarrow> [ErrorReport e])"
  by (auto simp: lines_for_unfold statusText_def statusWord_def produced_def CheckState_distinct)

lemma lines_for_produced:
  assumes "produced h"
  shows "lines_for h =
           (if Status h = CheckStateOK then [] else [Text (statusText h)]) @
           (case Error h of None \<Rightarrow> [] | Some e \<Rightarrow> [ErrorReport e])"
proof (cases "Status h = CheckStateOK")
  case True
  with assms have "Error h = None"
    by (auto simp: produced_def CheckState_distinct)
  with True assms show ?thesis
    by (simp add: lines_for_ok)
next
  case False
  with assms show ?thesis
    by (simp add: lines_for_failing)
qed

lemma statusWord_no_newline: "newline \<notin> set (statusWord s)"
  by (simp add: statusWord_def newline_def)

lemma oneLine_statusText:
  "newline \<notin> set (ServiceGroup h) \<Longrightarrow> oneLine (statusText h)"
  using statusWord_no_newline[of "Status h"]
  by (simp add: oneLine_def statusText_def butlast_append newline_def)

lemma checkServices_around:
  assumes "checkServices w plugin earlier past0 = Inr (health1, past1)"
    and "checkService w plugin service past1 = Inr (h, past1')"
    and "checkServices w plugin later past1' = Inr (health2, past2)"
  shows "checkServices w plugin (earlier @ service # later) past0 =
           Inr (health1 @ h # health2, past2)"
  using assms by (simp add: checkServices_append)

lemma conclude_unknown:
  assumes "Status h = CheckStateUnknown"
  shows "conclude (health1 @ h # health2) past =
           \<lparr>state = CheckStateCritical, failure = None,
            stdout = concat (map lines_for health1) @ lines_for h @ concat (map lines_for health2),
            requests = past\<rparr>"
  using assms by (simp add: conclude_unfold)

text \<open>
  C6: when there is no service to check, \<open>executeCheck\<close> returns OK and prints only
  \<open>No services loaded\<close>; when there are services and the health of each is OK, it
  returns OK and prints only \<open>All health checks returning OK for loaded services\<close>,
  so no line for any service; the two texts differ.
\<close>

theorem ok_messages:
  "(servicesToCheck w plugin = (Inr [], past) \<longrightarrow>
      executeCheck w plugin =
        Inr \<lparr>state = CheckStateOK, failure = None, stdout = [Text ''No services loaded''],
             requests = past\<rparr>) \<and>
   (servicesToCheck w plugin = (Inr services, past) \<and> services \<noteq> [] \<and>
    checkServices w plugin services past = Inr (health, past') \<and>
    (\<forall>h\<in>set health. Status h = CheckStateOK) \<longrightarrow>
      executeCheck w plugin =
        Inr \<lparr>state = CheckStateOK, failure = None,
             stdout = [Text ''All health checks returning OK for loaded services''],
             requests = past'\<rparr>) \<and>
   ''No services loaded'' \<noteq> ''All health checks returning OK for loaded services''"
proof -
  have a: "executeCheck w plugin =
      Inr \<lparr>state = CheckStateOK, failure = None, stdout = [Text ''No services loaded''], requests = past\<rparr>"
    if "servicesToCheck w plugin = (Inr [], past)"
    using that by (simp add: executeCheck_def conclude_unfold)
  have b: "executeCheck w plugin =
      Inr \<lparr>state = CheckStateOK, failure = None,
           stdout = [Text ''All health checks returning OK for loaded services''], requests = past'\<rparr>"
    if s: "servicesToCheck w plugin = (Inr services, past)" and n: "services \<noteq> []"
      and c: "checkServices w plugin services past = Inr (health, past')"
      and ok: "\<forall>h\<in>set health. Status h = CheckStateOK"
  proof -
    from checkServices_health[OF c] have m: "map ServiceGroup health = services"
      and p: "\<forall>h\<in>set health. produced h" by simp_all
    from m n have ne: "health \<noteq> []" by auto
    from p ok have "\<forall>h\<in>set health. lines_for h = []" by (simp add: lines_for_ok)
    then have "concat (map lines_for health) = []" by simp
    with ok ne show ?thesis
      unfolding executeCheck_reached[OF s c] conclude_unfold
      by (simp add: CheckState_distinct)
  qed
  from a b show ?thesis by simp
qed

theorem ok_messages_witness:
  "executeCheck sample (config ''http://10.0.0.2:9631'' []) =
     Inr \<lparr>state = CheckStateOK, failure = None, stdout = [Text ''No services loaded''],
          requests = [''http://10.0.0.2:9631/services'']\<rparr> \<and>
   executeCheck sample (local [''nginx.default'']) =
     Inr \<lparr>state = CheckStateOK, failure = None,
          stdout = [Text ''All health checks returning OK for loaded services''],
          requests = [''http://127.0.0.1:9631/services/nginx/default/health'']\<rparr>"
proof -
  have e: "servicesToCheck sample (config ''http://10.0.0.2:9631'' []) =
      (Inr [], [''http://10.0.0.2:9631/services''])"
    by (simp add: servicesToCheck_enumerated sample_enumeration)
  have s: "servicesToCheck sample (local [''nginx.default'']) = (Inr [''nginx.default''], [])"
    by (simp add: servicesToCheck_explicit)
  have c: "checkServices sample (local [''nginx.default'']) [''nginx.default''] [] =
      Inr ([\<lparr>ServiceGroup = ''nginx.default'', Status = CheckStateOK, Error = None\<rparr>],
           [''http://127.0.0.1:9631/services/nginx/default/health''])"
    by (simp add: sample_health)
  from ok_messages[of sample "config ''http://10.0.0.2:9631'' []" "[''http://10.0.0.2:9631/services'']"] e
  have "executeCheck sample (config ''http://10.0.0.2:9631'' []) =
     Inr \<lparr>state = CheckStateOK, failure = None, stdout = [Text ''No services loaded''],
          requests = [''http://10.0.0.2:9631/services'']\<rparr>"
    by blast
  moreover from ok_messages[of sample "local [''nginx.default'']" "[]" "[''nginx.default'']"
      "[\<lparr>ServiceGroup = ''nginx.default'', Status = CheckStateOK, Error = None\<rparr>]"
      "[''http://127.0.0.1:9631/services/nginx/default/health'']"] s c
  have "executeCheck sample (local [''nginx.default'']) =
     Inr \<lparr>state = CheckStateOK, failure = None,
          stdout = [Text ''All health checks returning OK for loaded services''],
          requests = [''http://127.0.0.1:9631/services/nginx/default/health'']\<rparr>"
    by simp
  ultimately show ?thesis by simp
qed

text \<open>
  C9 as stated fails for a service group with a newline in it: \<open>checkArgs\<close> accepts
  the service, its request cannot be built, and the text printed for it spreads over
  two lines of output, neither of which holds the whole group.
\<close>

theorem newline_in_group_two_lines:
  "checkArgs strict (local [''redis'' @ [newline] @ ''.default'']) = (CheckStateOK, None) \<and>
   executeCheck strict (local [''redis'' @ [newline] @ ''.default'']) =
     Inr \<lparr>state = CheckStateCritical, failure = None,
          stdout = [Text (''redis'' @ [newline] @ ''.default UNKNOWN'' @ [newline]),
                    ErrorReport (LibraryError ''invalid control character in URL'')],
          requests = []\<rparr> \<and>
   \<not> oneLine (''redis'' @ [newline] @ ''.default UNKNOWN'' @ [newline]) \<and>
   count_list (''redis'' @ [newline] @ ''.default UNKNOWN'' @ [newline]) newline = 2"
proof -
  let ?s = "''redis'' @ [newline] @ ''.default''"
  have dot: "CHR ''.'' \<in> set ?s"
    by simp
  have sp: "SplitN ?s = [''redis'' @ [newline], ''default'']"
    by (simp add: SplitN_def newline_def)
  have nl: "newline \<in> set (healthUrl (local [?s]) ?s)"
    unfolding healthUrl_def sp by simp
  have one: "checkService strict (local [?s]) ?s [] =
      Inr (\<lparr>ServiceGroup = ?s, Status = CheckStateUnknown,
             Error = Some (LibraryError ''invalid control character in URL'')\<rparr>, [])"
    using dot nl by (simp add: checkService_def length_SplitN strict_def del: append.simps)
  have all: "checkServices strict (local [?s]) [?s] [] =
      Inr ([\<lparr>ServiceGroup = ?s, Status = CheckStateUnknown,
              Error = Some (LibraryError ''invalid control character in URL'')\<rparr>], [])"
    using one by (simp del: append.simps)
  have s: "servicesToCheck strict (local [?s]) = (Inr [?s], [])"
    by (simp add: servicesToCheck_explicit del: append.simps)
  have run: "executeCheck strict (local [?s]) =
      Inr \<lparr>state = CheckStateCritical, failure = None,
           stdout = [Text (?s @ '' UNKNOWN'' @ [newline]),
                     ErrorReport (LibraryError ''invalid control character in URL'')],
           requests = []\<rparr>"
    unfolding executeCheck_reached[OF s all]
    by (simp add: conclude_unfold lines_for_unfold CheckState_distinct)
  have args: "checkArgs strict (local [?s]) = (CheckStateOK, None)"
    by (simp add: checkArgs_def length_SplitN local_def config_def strict_def newline_def)
  have two: "\<not> oneLine (''redis'' @ [newline] @ ''.default UNKNOWN'' @ [newline])"
    "count_list (''redis'' @ [newline] @ ''.default UNKNOWN'' @ [newline]) newline = 2"
    by (simp_all add: oneLine_def newline_def)
  from run args two show ?thesis
    by simp
qed

text \<open>
  C9, amended: for every service whose health is not OK, \<open>executeCheck\<close> makes one
  print call that names it, with the text of its group, a blank, its status word and
  a newline, followed by an error report when the service carries an error; for a
  service whose health is OK it prints nothing; after these comes only the closing
  text of a run in which every health is OK. The text for a service is one line of
  output whenever its group has no newline in it.
\<close>

theorem one_print_per_failing_service:
  assumes "servicesToCheck w plugin = (Inr services, past)"
    and "checkServices w plugin services past = Inr (health, past')"
  shows "\<exists>r. executeCheck w plugin = Inr r \<and> map ServiceGroup health = services \<and>
           stdout r =
             concat (map (\<lambda>h. (if Status h = CheckStateOK then [] else [Text (statusText h)]) @
                              (case Error h of None \<Rightarrow> [] | Some e \<Rightarrow> [ErrorReport e]))
                      health) @
             (if \<exists>h\<in>set health. Status h \<noteq> CheckStateOK then []
              else if health = [] then [Text ''No services loaded'']
              else [Text ''All health checks returning OK for loaded services'']) \<and>
           (\<forall>h\<in>set health.
              (Status h = CheckStateOK \<or> Status h = CheckStateWarning \<or>
               Status h = CheckStateCritical \<or> Status h = CheckStateUnknown) \<and>
              (Status h = CheckStateOK \<longrightarrow> Error h = None) \<and>
              (newline \<notin> set (ServiceGroup h) \<longrightarrow> oneLine (statusText h)))"
proof -
  from checkServices_health[OF assms(2)] have m: "map ServiceGroup health = services"
    and p: "\<forall>h\<in>set health. produced h" by simp_all
  let ?f = "\<lambda>h. (if Status h = CheckStateOK then [] else [Text (statusText h)]) @
      (case Error h of None \<Rightarrow> [] | Some e \<Rightarrow> [ErrorReport e])"
  from p have eq: "concat (map lines_for health) = concat (map ?f health)"
    by (induction health) (simp_all add: lines_for_produced)
  have out: "stdout (conclude health past') =
      concat (map ?f health) @
      (if \<exists>h\<in>set health. Status h \<noteq> CheckStateOK then []
       else if health = [] then [Text ''No services loaded'']
       else [Text ''All health checks returning OK for loaded services''])"
    unfolding conclude_stdout[OF p] eq ..
  have each: "\<forall>h\<in>set health.
      (Status h = CheckStateOK \<or> Status h = CheckStateWarning \<or>
       Status h = CheckStateCritical \<or> Status h = CheckStateUnknown) \<and>
      (Status h = CheckStateOK \<longrightarrow> Error h = None) \<and>
      (newline \<notin> set (ServiceGroup h) \<longrightarrow> oneLine (statusText h))"
    using p by (auto simp: produced_def CheckState_distinct oneLine_statusText)
  show ?thesis
    unfolding executeCheck_reached[OF assms]
    using m out each by blast
qed

theorem one_print_per_failing_service_witness:
  "\<exists>r. executeCheck sample (local [''db.default'', ''nginx.default'']) = Inr r \<and>
        stdout r = [Text (''db.default WARNING'' @ [newline])] \<and>
        oneLine (''db.default WARNING'' @ [newline])"
proof -
  have s: "servicesToCheck sample (local [''db.default'', ''nginx.default'']) =
      (Inr [''db.default'', ''nginx.default''], [])"
    by (simp add: servicesToCheck_explicit)
  have c: "checkServices sample (local [''db.default'', ''nginx.default''])
        [''db.default'', ''nginx.default''] [] =
      Inr ([\<lparr>ServiceGroup = ''db.default'', Status = CheckStateWarning, Error = None\<rparr>,
            \<lparr>ServiceGroup = ''nginx.default'', Status = CheckStateOK, Error = None\<rparr>],
           [''http://127.0.0.1:9631/services/db/default/health'',
            ''http://127.0.0.1:9631/services/nginx/default/health''])"
    by (simp add: sample_health)
  have t: "statusText \<lparr>ServiceGroup = ''db.default'', Status = CheckStateWarning, Error = None\<rparr> =
      ''db.default WARNING'' @ [newline]"
    by (simp add: statusText_def statusWord_def)
  have n: "newline \<notin> set ''db.default''"
    by (simp add: newline_def)
  from one_print_per_failing_service[OF s c] n show ?thesis
    by (simp add: t CheckState_distinct) blast
qed

subsection \<open>One service that fails\<close>

text \<open>
  C3: a health request answered with a status code other than 200 gives that service
  the health UNKNOWN without an error; the services after it are still checked, and
  \<open>executeCheck\<close> returns CRITICAL and no error, having printed for that service the
  single line of its group and UNKNOWN, between the lines of the services before and
  after it.
\<close>

theorem non_200_is_unknown:
  assumes "servicesToCheck w plugin = (Inr (earlier @ service # later), past0)"
    and "checkServices w plugin earlier past0 = Inr (health1, past1)"
    and "CHR ''.'' \<in> set service"
    and "url_Parse w (healthUrl plugin service) = None"
    and "client_Do w past1 (healthUrl plugin service) = Inr resp"
    and "StatusCode resp \<noteq> 200"
    and "checkServices w plugin later (past1 @ [healthUrl plugin service]) = Inr (health2, past2)"
  shows "checkService w plugin service past1 =
           Inr (\<lparr>ServiceGroup = service, Status = CheckStateUnknown, Error = None\<rparr>,
                past1 @ [healthUrl plugin service]) \<and>
         executeCheck w plugin =
           Inr \<lparr>state = CheckStateCritical, failure = None,
                stdout = concat (map lines_for health1) @
                  [Text (service @ '' UNKNOWN'' @ [newline])] @ concat (map lines_for health2),
                requests = past2\<rparr>"
proof -
  let ?h = "\<lparr>ServiceGroup = service, Status = CheckStateUnknown, Error = None\<rparr>"
  have one: "checkService w plugin service past1 = Inr (?h, past1 @ [healthUrl plugin service])"
    using assms(3-6) by (simp add: checkService_def length_SplitN)
  have "lines_for ?h = [Text (service @ '' UNKNOWN'' @ [newline])]"
    by (simp add: lines_for_unfold CheckState_distinct)
  then show ?thesis
    using one executeCheck_reached[OF assms(1) checkServices_around[OF assms(2) one assms(7)]]
    by (simp add: conclude_unknown)
qed

theorem non_200_is_unknown_witness:
  "executeCheck sample (config ''http://127.0.0.1:9631'' []) =
     Inr \<lparr>state = CheckStateCritical, failure = None,
          stdout = [Text (''redis.default UNKNOWN'' @ [newline])],
          requests = [''http://127.0.0.1:9631/services'',
                      ''http://127.0.0.1:9631/services/redis/default/health'']\<rparr>"
proof -
  have l: "config ''http://127.0.0.1:9631'' [] = local []"
    by (simp add: local_def)
  have s: "servicesToCheck sample (local []) =
      (Inr ([] @ ''redis.default'' # []), [''http://127.0.0.1:9631/services''])"
    by (simp add: servicesToCheck_enumerated sample_enumeration flip: l)
  have r: "client_Do sample [''http://127.0.0.1:9631/services''] (healthUrl (local []) ''redis.default'') =
      Inr \<lparr>StatusCode = 404, Body = []\<rparr>"
    by (simp add: sample_urls sample_fields sample_replies)
  have n: "StatusCode \<lparr>StatusCode = 404, Body = []\<rparr> \<noteq> 200"
    by simp
  from non_200_is_unknown[OF s _ sample_dots(1) sample_fields(1) r n, of "[]" "[]"
      "[''http://127.0.0.1:9631/services'', ''http://127.0.0.1:9631/services/redis/default/health'']"]
  show ?thesis
    by (simp add: l sample_urls)
qed

text \<open>
  C5: when a health request fails in the network, or its body does not decode, the
  error goes to that service alone: its health is UNKNOWN with the error, the status
  line and the error report are printed for it, the services after it are still
  checked, and \<open>executeCheck\<close> returns CRITICAL with no error of its own.
\<close>

theorem service_error_is_local:
  assumes "servicesToCheck w plugin = (Inr (earlier @ service # later), past0)"
    and "checkServices w plugin earlier past0 = Inr (health1, past1)"
    and "CHR ''.'' \<in> set service"
    and "url_Parse w (healthUrl plugin service) = None"
    and "client_Do w past1 (healthUrl plugin service) = Inl e \<and> err = e \<or>
         (\<exists>resp. client_Do w past1 (healthUrl plugin service) = Inr resp \<and> StatusCode resp = 200 \<and>
            decode_HealthResponse w (Body resp) = Inl e \<and> err = DecodeHealthResponse e)"
    and "checkServices w plugin later (past1 @ [healthUrl plugin service]) = Inr (health2, past2)"
  shows "checkService w plugin service past1 =
           Inr (\<lparr>ServiceGroup = service, Status = CheckStateUnknown, Error = Some err\<rparr>,
                past1 @ [healthUrl plugin service]) \<and>
         executeCheck w plugin =
           Inr \<lparr>state = CheckStateCritical, failure = None,
                stdout = concat (map lines_for health1) @
                  [Text (service @ '' UNKNOWN'' @ [newline]), ErrorReport err] @
                  concat (map lines_for health2),
                requests = past2\<rparr>"
proof -
  let ?h = "\<lparr>ServiceGroup = service, Status = CheckStateUnknown, Error = Some err\<rparr>"
  have one: "checkService w plugin service past1 = Inr (?h, past1 @ [healthUrl plugin service])"
    using assms(3-5) by (auto simp: checkService_def length_SplitN)
  have "lines_for ?h = [Text (service @ '' UNKNOWN'' @ [newline]), ErrorReport err]"
    by (simp add: lines_for_unfold CheckState_distinct)
  then show ?thesis
    using one executeCheck_reached[OF assms(1) checkServices_around[OF assms(2) one assms(6)]]
    by (simp add: conclude_unknown)
qed

theorem service_error_is_local_witness:
  "executeCheck sample (local [''nginx.default'', ''cache.default'', ''db.default'']) =
     Inr \<lparr>state = CheckStateCritical, failure = None,
          stdout = [Text (''cache.default UNKNOWN'' @ [newline]),
                    ErrorReport (DecodeHealthResponse (LibraryError ''invalid character'')),
                    Text (''db.default WARNING'' @ [newline])],
          requests = [''http://127.0.0.1:9631/services/nginx/default/health'',
                      ''http://127.0.0.1:9631/services/cache/default/health'',
                      ''http://127.0.0.1:9631/services/db/default/health'']\<rparr>"
proof -
  let ?p = "local [''nginx.default'', ''cache.default'', ''db.default'']"
  have s: "servicesToCheck sample ?p = (Inr ([''nginx.default''] @ ''cache.default'' # [''db.default'']), [])"
    by (simp add: servicesToCheck_explicit)
  have c1: "checkServices sample ?p [''nginx.default''] [] =
      Inr ([\<lparr>ServiceGroup = ''nginx.default'', Status = CheckStateOK, Error = None\<rparr>],
           [''http://127.0.0.1:9631/services/nginx/default/health''])"
    by (simp add: sample_health)
  have r: "client_Do sample [''http://127.0.0.1:9631/services/nginx/default/health'']
        (healthUrl ?p ''cache.default'') = Inl (LibraryError ''invalid character'') \<and>
        DecodeHealthResponse (LibraryError ''invalid character'') = LibraryError ''invalid character'' \<or>
      (\<exists>resp. client_Do sample [''http://127.0.0.1:9631/services/nginx/default/health'']
          (healthUrl ?p ''cache.default'') = Inr resp \<and> StatusCode resp = 200 \<and>
        decode_HealthResponse sample (Body resp) = Inl (LibraryError ''invalid character'') \<and>
        DecodeHealthResponse (LibraryError ''invalid character'') =
          DecodeHealthResponse (LibraryError ''invalid character''))"
    by (simp add: sample_urls sample_fields sample_replies)
  have c2: "checkServices sample ?p [''db.default'']
        ([''http://127.0.0.1:9631/services/nginx/default/health''] @ [healthUrl ?p ''cache.default'']) =
      Inr ([\<lparr>ServiceGroup = ''db.default'', Status = CheckStateWarning, Error = None\<rparr>],
           [''http://127.0.0.1:9631/services/nginx/default/health'',
            ''http://127.0.0.1:9631/services/cache/default/health'',
            ''http://127.0.0.1:9631/services/db/default/health''])"
    by (simp add: sample_health sample_urls)
  from service_error_is_local[OF s c1 sample_dots(4) sample_fields(1) r c2]
  show ?thesis
    by (simp add: lines_for_unfold CheckState_distinct)
qed

subsection \<open>Parsing the status\<close>

lemma healthStatus_ascii:
  assumes "\<forall>c\<in>set status. (of_char c :: nat) < 128"
  shows "healthStatus status CheckStateUnknown =
           (if map toLowerASCII status = ''ok'' then CheckStateOK
            else if map toLowerASCII status = ''warning'' then CheckStateWarning
            else if map toLowerASCII status = ''critical'' then CheckStateCritical
            else CheckStateUnknown)"
  unfolding healthStatus_def
    EqualFold_ascii[OF assms lowerLetters_words(1)] EqualFold_ascii[OF assms lowerLetters_words(2)]
    EqualFold_ascii[OF assms lowerLetters_words(3)] EqualFold_ascii[OF assms lowerLetters_words(4)]
  by simp

lemma healthStatus_fold:
  "map toLowerASCII status' = map toLowerASCII status \<Longrightarrow>
     healthStatus status' current = healthStatus status current"
proof -
  assume "map toLowerASCII status' = map toLowerASCII status"
  then have "EqualFold status' t = EqualFold status t" for t
    using EqualFold_toLower[of status' t] EqualFold_toLower[of status t] by simp
  then show ?thesis
    by (simp only: healthStatus_def)
qed

lemma lower_Warning: "map toLowerASCII ''Warning'' = ''warning''"
  by (simp add: toLowerASCII_def char_of_eq_iff)

text \<open>
  C7: a health response with code 200 and a decoded status gives the service one of
  the four states and no error. For a status of ASCII bytes the state is OK, WARNING
  or CRITICAL when the status in lower case is \<open>ok\<close>, \<open>warning\<close> or \<open>critical\<close>, and
  UNKNOWN otherwise; two statuses that differ only in the case of ASCII letters give
  the same state; and a status that matches none of the four words gives UNKNOWN, the
  state set before the comparisons.
\<close>

theorem status_parsed_ignoring_case:
  assumes "CHR ''.'' \<in> set service"
    and "url_Parse w (healthUrl plugin service) = None"
    and "client_Do w past (healthUrl plugin service) = Inr resp"
    and "StatusCode resp = 200"
    and "decode_HealthResponse w (Body resp) = Inr status"
  shows "\<exists>h. checkService w plugin service past = Inr (h, past @ [healthUrl plugin service]) \<and>
           ServiceGroup h = service \<and> Error h = None \<and>
           (Status h = CheckStateOK \<or> Status h = CheckStateWarning \<or>
            Status h = CheckStateCritical \<or> Status h = CheckStateUnknown) \<and>
           ((\<forall>c\<in>set status. (of_char c :: nat) < 128) \<longrightarrow>
              Status h =
                (if map toLowerASCII status = ''ok'' then CheckStateOK
                 else if map toLowerASCII status = ''warning'' then CheckStateWarning
                 else if map toLowerASCII status = ''critical'' then CheckStateCritical
                 else CheckStateUnknown)) \<and>
           (\<forall>status'. map toLowerASCII status' = map toLowerASCII status \<longrightarrow>
              healthStatus status' CheckStateUnknown = Status h) \<and>
           (\<not> EqualFold status ''ok'' \<and> \<not> EqualFold status ''warning'' \<and>
            \<not> EqualFold status ''critical'' \<and> \<not> EqualFold status ''unknown'' \<longrightarrow>
              Status h = CheckStateUnknown)"
proof -
  let ?h = "\<lparr>ServiceGroup = service, Status = healthStatus status CheckStateUnknown, Error = None\<rparr>"
  have one: "checkService w plugin service past = Inr (?h, past @ [healthUrl plugin service])"
    using assms by (simp add: checkService_def length_SplitN)
  have st: "Status ?h = healthStatus status CheckStateUnknown"
    by simp
  show ?thesis
  proof (rule exI[of _ ?h], intro conjI)
    show "checkService w plugin service past = Inr (?h, past @ [healthUrl plugin service])"
      by (fact one)
    show "ServiceGroup ?h = service" and "Error ?h = None"
      by simp_all
    show "Status ?h = CheckStateOK \<or> Status ?h = CheckStateWarning \<or>
        Status ?h = CheckStateCritical \<or> Status ?h = CheckStateUnknown"
      unfolding st by (rule healthStatus_cases)
    show "(\<forall>c\<in>set status. (of_char c :: nat) < 128) \<longrightarrow>
        Status ?h =
          (if map toLowerASCII status = ''ok'' then CheckStateOK
           else if map toLowerASCII status = ''warning'' then CheckStateWarning
           else if map toLowerASCII status = ''critical'' then CheckStateCritical
           else CheckStateUnknown)"
      unfolding st using healthStatus_ascii[of status] by blast
    show "\<forall>status'. map toLowerASCII status' = map toLowerASCII status \<longrightarrow>
        healthStatus status' CheckStateUnknown = Status ?h"
      unfolding st using healthStatus_fold by blast
    show "\<not> EqualFold status ''ok'' \<and> \<not> EqualFold status ''warning'' \<and>
        \<not> EqualFold status ''critical'' \<and> \<not> EqualFold status ''unknown'' \<longrightarrow>
        Status ?h = CheckStateUnknown"
      unfolding st by (simp add: healthStatus_def del: EqualFold.simps)
  qed
qed

theorem status_parsed_ignoring_case_witness:
  "(\<exists>h. checkService sample (local []) ''db.default'' [] =
          Inr (h, [''http://127.0.0.1:9631/services/db/default/health'']) \<and>
        Status h = CheckStateWarning) \<and>
   map toLowerASCII ''Warning'' = ''warning'' \<and>
   healthStatus ''WARNING'' CheckStateUnknown = CheckStateWarning \<and>
   (\<exists>h. checkService sample (local []) ''mail.default'' [] =
          Inr (h, [''http://127.0.0.1:9631/services/mail/default/health'']) \<and>
        Status h = CheckStateUnknown)"
proof -
  have r: "client_Do sample [] (healthUrl (local []) ''db.default'') =
      Inr \<lparr>StatusCode = 200, Body = ''Warning''\<rparr>"
    by (simp add: sample_urls sample_fields sample_replies)
  have c: "StatusCode \<lparr>StatusCode = 200, Body = ''Warning''\<rparr> = 200"
    by simp
  have d: "decode_HealthResponse sample (Body \<lparr>StatusCode = 200, Body = ''Warning''\<rparr>) = Inr ''Warning''"
    by (simp add: sample_fields)
  have a: "\<forall>c\<in>set ''Warning''. (of_char c :: nat) < 128"
    by simp
  have u: "map toLowerASCII ''WARNING'' = map toLowerASCII ''Warning''"
    by (simp add: toLowerASCII_def char_of_eq_iff)
  from status_parsed_ignoring_case[OF sample_dots(3) sample_fields(1) r c d]
  obtain h where h: "checkService sample (local []) ''db.default'' [] =
        Inr (h, [] @ [healthUrl (local []) ''db.default''])"
    and l: "(\<forall>c\<in>set ''Warning''. (of_char c :: nat) < 128) \<longrightarrow>
        Status h =
          (if map toLowerASCII ''Warning'' = ''ok'' then CheckStateOK
           else if map toLowerASCII ''Warning'' = ''warning'' then CheckStateWarning
           else if map toLowerASCII ''Warning'' = ''critical'' then CheckStateCritical
           else CheckStateUnknown)"
    and f: "\<forall>status'. map toLowerASCII status' = map toLowerASCII ''Warning'' \<longrightarrow>
        healthStatus status' CheckStateUnknown = Status h"
    by blast
  from l a have "Status h =
      (if map toLowerASCII ''Warning'' = ''ok'' then CheckStateOK
       else if map toLowerASCII ''Warning'' = ''warning'' then CheckStateWarning
       else if map toLowerASCII ''Warning'' = ''critical'' then CheckStateCritical
       else CheckStateUnknown)"
    by blast
  then have w: "Status h = CheckStateWarning"
    unfolding lower_Warning by simp
  from f u have "healthStatus ''WARNING'' CheckStateUnknown = Status h"
    by blast
  with w have v: "healthStatus ''WARNING'' CheckStateUnknown = CheckStateWarning"
    by simp
  from h w have first: "\<exists>h. checkService sample (local []) ''db.default'' [] =
        Inr (h, [''http://127.0.0.1:9631/services/db/default/health'']) \<and>
      Status h = CheckStateWarning"
    by (simp only: sample_urls append_Nil) blast
  have r': "client_Do sample [] (healthUrl (local []) ''mail.default'') =
      Inr \<lparr>StatusCode = 200, Body = ''degraded''\<rparr>"
    by (simp add: sample_urls sample_fields sample_replies)
  have c': "StatusCode \<lparr>StatusCode = 200, Body = ''degraded''\<rparr> = 200"
    by simp
  have d': "decode_HealthResponse sample (Body \<lparr>StatusCode = 200, Body = ''degraded''\<rparr>) =
      Inr ''degraded''"
    by (simp add: sample_fields)
  have none: "\<not> EqualFold ''degraded'' ''ok'' \<and> \<not> EqualFold ''degraded'' ''warning'' \<and>
      \<not> EqualFold ''degraded'' ''critical'' \<and> \<not> EqualFold ''degraded'' ''unknown''"
    by (simp add: asciiFold_def)
  from status_parsed_ignoring_case[OF sample_dots(7) sample_fields(1) r' c' d']
  obtain h' where h': "checkService sample (local []) ''mail.default'' [] =
        Inr (h', [] @ [healthUrl (local []) ''mail.default''])"
    and n: "\<not> EqualFold ''degraded'' ''ok'' \<and> \<not> EqualFold ''degraded'' ''warning'' \<and>
        \<not> EqualFold ''degraded'' ''critical'' \<and> \<not> EqualFold ''degraded'' ''unknown'' \<longrightarrow>
        Status h' = CheckStateUnknown"
    by blast
  from n none have "Status h' = CheckStateUnknown"
    by blast
  with h' have second: "\<exists>h. checkService sample (local []) ''mail.default'' [] =
        Inr (h, [''http://127.0.0.1:9631/services/mail/default/health'']) \<and>
      Status h = CheckStateUnknown"
    by (simp only: sample_urls append_Nil) blast
  from first second v lower_Warning show ?thesis
    by blast
qed

end
